theory Spec2Isabelle
  imports Main "HOL-Library.Multiset"
begin

section \<open>Values of the raw records\<close>

text \<open>
  The ingestion models of \<^verbatim>\<open>stormspotter/ingest/models.py\<close> are built from raw records that
  are JSON-compatible mappings. A raw value is a JSON tree. A Python \<^verbatim>\<open>dict\<close> keeps
  its insertion order and has unique keys; it is an association list here, read with
  \<open>map_of\<close>. Numbers are the integers (floating-point numbers are outside the model).
  \<^verbatim>\<open>None\<close> is \<open>JNull\<close>; a field that the record does not carry is \<open>JNull\<close> too, as
  pydantic hands \<^verbatim>\<open>None\<close> to a validator declared with \<^verbatim>\<open>always=True\<close>.

  \<^verbatim>\<open>DynamicObject.from_dict\<close> sends the value through \<^verbatim>\<open>json.dumps\<close> and
  \<^verbatim>\<open>json.loads\<close> with \<^verbatim>\<open>object_hook=DynamicObject\<close>: the tree is unchanged, and every
  JSON object in it (nested ones too) becomes a \<^verbatim>\<open>DynamicObject\<close> whose \<^verbatim>\<open>__dict__\<close> holds
  the object's entries. So \<open>JObj\<close> stands for a \<^verbatim>\<open>dict\<close> before that conversion and for a
  \<^verbatim>\<open>DynamicObject\<close> after it.
\<close>

datatype json =
    JNull
  | JBool bool
  | JNum int
  | JStr string
  | JArr "json list"
  | JObj "(string \<times> json) list"

datatype error =
    ValidationError
  | AttributeError
  | TypeError
  | IndexError

text \<open>Sequencing of fallible steps: the first raised error ends the computation.\<close>

definition bindE :: "error + 'a \<Rightarrow> ('a \<Rightarrow> error + 'b) \<Rightarrow> error + 'b" where
  "bindE m f = (case m of Inl e \<Rightarrow> Inl e | Inr x \<Rightarrow> f x)"

fun mapE :: "('a \<Rightarrow> error + 'b) \<Rightarrow> 'a list \<Rightarrow> error + 'b list" where
  "mapE f [] = Inr []"
| "mapE f (x # xs) =
     (case f x of
        Inl e \<Rightarrow> Inl e
      | Inr y \<Rightarrow> (case mapE f xs of Inl e \<Rightarrow> Inl e | Inr ys \<Rightarrow> Inr (y # ys)))"

text \<open>Python's truth value of a raw value (\<^verbatim>\<open>if dict_value:\<close>).\<close>

fun truthy :: "json \<Rightarrow> bool" where
  "truthy JNull = False"
| "truthy (JBool b) = b"
| "truthy (JNum n) = (n \<noteq> 0)"
| "truthy (JStr s) = (s \<noteq> [])"
| "truthy (JArr xs) = (xs \<noteq> [])"
| "truthy (JObj kvs) = (kvs \<noteq> [])"

section \<open>Strings\<close>

text \<open>\<^verbatim>\<open>s.startswith(sub)\<close>.\<close>

fun startswith :: "string \<Rightarrow> string \<Rightarrow> bool" where
  "startswith [] s = True"
| "startswith (x # xs) [] = False"
| "startswith (x # xs) (y # ys) = (x = y \<and> startswith xs ys)"

text \<open>\<^verbatim>\<open>sub in s\<close>: \<open>sub\<close> occurs in \<open>s\<close> as a substring.\<close>

fun str_contains :: "string \<Rightarrow> string \<Rightarrow> bool" where
  "str_contains sub [] = (sub = [])"
| "str_contains sub (c # cs) = (startswith sub (c # cs) \<or> str_contains sub cs)"

text \<open>
  \<^verbatim>\<open>s.split(sep)\<close> for a non-empty separator: the string is cut at every occurrence of
  \<open>sep\<close>, scanning from the left, occurrences not overlapping. The result is never empty.
  (Python raises \<^verbatim>\<open>ValueError\<close> on an empty separator; the source only splits at
  \<^verbatim>\<open>"/"\<close>, \<^verbatim>\<open>"/providers"\<close> and \<^verbatim>\<open>"."\<close>. For an empty separator the function below
  returns the whole string.)
\<close>

function py_split :: "string \<Rightarrow> string \<Rightarrow> string list" where
  "py_split sep [] = [[]]"
| "py_split sep (c # cs) =
     (if sep \<noteq> [] \<and> startswith sep (c # cs)
      then [] # py_split sep (drop (length sep) (c # cs))
      else if sep = [] then [c # cs]
      else (case py_split sep cs of
              [] \<Rightarrow> [[c]]
            | w # ws \<Rightarrow> (c # w) # ws))"
  by pat_completeness auto
termination
  by (relation "measure (\<lambda>(sep, s). length s)") auto

text \<open>\<^verbatim>\<open>xs[i]\<close> for a non-negative index: \<^verbatim>\<open>IndexError\<close> out of range.\<close>

definition py_index :: "'a list \<Rightarrow> nat \<Rightarrow> error + 'a" where
  "py_index xs i = (if i < length xs then Inr (xs ! i) else Inl IndexError)"

text \<open>\<^verbatim>\<open>str.upper()\<close> on the ASCII letters of a class name.\<close>

definition upper_char :: "char \<Rightarrow> char" where
  "upper_char c =
     (let n = (of_char c :: nat)
      in if 97 \<le> n \<and> n \<le> 122 then char_of (n - 32) else c)"

definition upper :: "string \<Rightarrow> string" where
  "upper s = map upper_char s"

text \<open>\<^verbatim>\<open>str(n)\<close> for an integer: its decimal digits, with a sign when negative.\<close>

definition digit_char :: "nat \<Rightarrow> char" where
  "digit_char d = char_of (48 + d)"

function show_nat :: "nat \<Rightarrow> string" where
  "show_nat n = (if n < 10 then [digit_char n] else show_nat (n div 10) @ [digit_char (n mod 10)])"
  by pat_completeness auto
termination
  by (relation "measure id") auto

definition show_int :: "int \<Rightarrow> string" where
  "show_int i = (if i < 0 then CHR ''-'' # show_nat (nat (- i)) else show_nat (nat i))"

section \<open>Relation taxonomy\<close>

text \<open>\<^verbatim>\<open>class RelationLabels(Enum)\<close>: the closed set of edge kinds.\<close>

datatype RelationLabels =
    AttachedTo
  | Authenticates
  | ConnectedTo
  | Contains
  | Exposes
  | HasAccessPolicies
  | HasRbac
  | HasRole
  | Manages
  | MemberOf
  | Owns
  | RepresentedBy
  | Trusts

section \<open>Node and Relationship\<close>

text \<open>
  \<^verbatim>\<open>Node._labels\<close>, a class method: from the class's qualified name and the name of its
  first base class (\<^verbatim>\<open>cls.__mro__[1].__name__\<close>). \<^verbatim>\<open>None\<close> for \<^verbatim>\<open>Node\<close> itself.
\<close>

definition labels_of :: "string \<Rightarrow> string \<Rightarrow> string list option" where
  "labels_of qualname parent =
     (let label = last (py_split ''.'' qualname)
      in if label = ''Node'' then None
         else if label \<in> set [''AADObject'', ''ARMResource''] then Some [upper label]
         else Some [upper label, upper parent])"

text \<open>
  The validation pydantic (version 1, whose \<^verbatim>\<open>validator\<close> decorator the module imports)
  applies to a field annotated \<^verbatim>\<open>str\<close>: a string is kept, a number is rendered with
  \<^verbatim>\<open>str\<close> (\<^verbatim>\<open>bool\<close> is a subclass of \<^verbatim>\<open>int\<close>), anything else is refused, and
  \<^verbatim>\<open>None\<close> is refused because the field is not \<^verbatim>\<open>Optional\<close>. No validator of the
  module looks at the length of a string.
\<close>

fun str_validator :: "json \<Rightarrow> error + string" where
  "str_validator (JStr s) = Inr s"
| "str_validator (JNum n) = Inr (show_int n)"
| "str_validator (JBool b) = Inr (if b then ''True'' else ''False'')"
| "str_validator JNull = Inl ValidationError"
| "str_validator (JArr xs) = Inl ValidationError"
| "str_validator (JObj kvs) = Inl ValidationError"

text \<open>A field annotated \<^verbatim>\<open>Optional[str]\<close>.\<close>

definition optional_str_validator :: "json \<Rightarrow> error + string option" where
  "optional_str_validator v =
     (if v = JNull then Inr None else bindE (str_validator v) (\<lambda>s. Inr (Some s)))"

text \<open>A field annotated \<^verbatim>\<open>List[str]\<close>.\<close>

fun list_str_validator :: "json \<Rightarrow> error + string list" where
  "list_str_validator (JArr xs) = mapE str_validator xs"
| "list_str_validator v = Inl ValidationError"

text \<open>
  \<^verbatim>\<open>class Relationship(BaseModel)\<close>. \<open>properties\<close> is \<^verbatim>\<open>Optional[Dict[str, Any]]\<close>: the
  entries of the mapping, or \<open>None\<close>.
\<close>

record Relationship =
  source :: string
  source_label :: "string list"
  target :: string
  target_label :: "string list"
  relation :: RelationLabels
  properties :: "(string \<times> json) list option"

text \<open>
  \<^verbatim>\<open>Relationship.format_properties\<close>, run before the field's own validation and also when
  no \<^verbatim>\<open>properties\<close> argument is given: a \<^verbatim>\<open>dict\<close> is returned as it is, a
  \<^verbatim>\<open>DynamicObject\<close> gives its \<^verbatim>\<open>__dict__\<close>, and for anything else the function falls off
  its end and returns \<^verbatim>\<open>None\<close>.
\<close>

fun format_properties :: "json \<Rightarrow> (string \<times> json) list option" where
  "format_properties (JObj kvs) = Some kvs"
| "format_properties v = None"

text \<open>
  \<^verbatim>\<open>Relationship(source=..., source_label=..., target=..., target_label=..., relation=...,
  properties=...)\<close>. A label list is \<open>None\<close> when \<^verbatim>\<open>_labels\<close> returned \<^verbatim>\<open>None\<close>, which
  \<^verbatim>\<open>List[str]\<close> refuses. The \<open>properties\<close> argument is \<open>JNull\<close> when the caller omits it.
\<close>

definition Relationship_init ::
  "json \<Rightarrow> string list option \<Rightarrow> json \<Rightarrow> string list option \<Rightarrow> RelationLabels \<Rightarrow> json
     \<Rightarrow> error + Relationship" where
  "Relationship_init src src_label tgt tgt_label rel props =
     bindE (str_validator src) (\<lambda>s.
     bindE (case src_label of None \<Rightarrow> Inl ValidationError | Some l \<Rightarrow> Inr l) (\<lambda>sl.
     bindE (str_validator tgt) (\<lambda>t.
     bindE (case tgt_label of None \<Rightarrow> Inl ValidationError | Some l \<Rightarrow> Inr l) (\<lambda>tl.
       Inr \<lparr> source = s, source_label = sl, target = t, target_label = tl,
             relation = rel, properties = format_properties props \<rparr>))))"

text \<open>
  An element of a node's \<^verbatim>\<open>_relationships\<close> list. The list is a private attribute and is
  not validated, so it holds whatever is appended: a \<^verbatim>\<open>Relationship\<close>, or the empty list
  object that the default hook yields.
\<close>

datatype rel_item = Rel Relationship | EmptyList

text \<open>
  \<^verbatim>\<open>Node.__relationships__\<close>, the default hook: a generator whose body is \<^verbatim>\<open>yield []\<close>.
  It yields one element, the empty list.
\<close>

definition Node_relationships :: "rel_item list" where
  "Node_relationships = [EmptyList]"

text \<open>The relationships among the elements of a \<^verbatim>\<open>_relationships\<close> list.\<close>

fun rels_of :: "rel_item list \<Rightarrow> Relationship list" where
  "rels_of [] = []"
| "rels_of (Rel r # xs) = r # rels_of xs"
| "rels_of (EmptyList # xs) = rels_of xs"

section \<open>AAD objects\<close>

text \<open>
  A class of the AAD family: its name, and whether it declares the fields \<^verbatim>\<open>owners\<close> and
  \<^verbatim>\<open>members\<close> (\<^verbatim>\<open>Config.extra = "ignore"\<close> drops the keys of a record that the class
  does not declare, and then \<^verbatim>\<open>getattr(self, "owners", [])\<close> is \<^verbatim>\<open>[]\<close>). The hook is
  \<^verbatim>\<open>__relationships__\<close>; no class of the family overrides it.
\<close>

record aad_instance =
  aad_id :: string
  displayName :: string
  owners :: "string list option"
  members :: "string list option"
  aad_labels :: "string list option"
  aad_relationships :: "rel_item list"

record aad_class =
  aad_name :: string
  has_owners :: bool
  has_members :: bool
  aad_hook :: "aad_instance \<Rightarrow> error + rel_item list"

text \<open>
  A raw AAD record. \<open>raw_aad_extras_valid\<close> says whether the fields that only the concrete
  class declares (\<^verbatim>\<open>appId\<close>, \<^verbatim>\<open>accountEnabled\<close>, ...) pass their validation; they play
  no part in the relationships.
\<close>

record aad_raw =
  raw_aad_id :: json
  raw_displayName :: json
  raw_owners :: json
  raw_members :: json
  raw_aad_extras_valid :: bool

definition AADObject_labels :: "string list option" where
  "AADObject_labels = labels_of ''AADObject'' ''Node''"

definition aad_class_labels :: "aad_class \<Rightarrow> string list option" where
  "aad_class_labels c = labels_of (aad_name c) ''AADObject''"

text \<open>
  \<^verbatim>\<open>AADObject.__init__\<close>: the fields are validated, then one \<^verbatim>\<open>Owns\<close> relationship is
  appended for each owner, one \<^verbatim>\<open>MemberOf\<close> relationship for each member, and the list is
  extended with what the hook yields.
\<close>

definition owner_relationship :: "aad_instance \<Rightarrow> string \<Rightarrow> error + rel_item" where
  "owner_relationship self owner =
     bindE (Relationship_init (JStr (aad_id self)) (aad_labels self)
              (JStr owner) AADObject_labels Owns JNull)
       (\<lambda>r. Inr (Rel r))"

definition member_relationship :: "aad_instance \<Rightarrow> string \<Rightarrow> error + rel_item" where
  "member_relationship self member =
     bindE (Relationship_init (JStr member) AADObject_labels
              (JStr (aad_id self)) (aad_labels self) MemberOf JNull)
       (\<lambda>r. Inr (Rel r))"

definition getattr_default :: "'a list option \<Rightarrow> 'a list" where
  "getattr_default v = (case v of None \<Rightarrow> [] | Some xs \<Rightarrow> xs)"

definition AADObject_init :: "aad_class \<Rightarrow> aad_raw \<Rightarrow> error + aad_instance" where
  "AADObject_init c d =
     bindE (str_validator (raw_aad_id d)) (\<lambda>i.
     bindE (str_validator (raw_displayName d)) (\<lambda>dn.
     bindE (if has_owners c
            then bindE (list_str_validator (raw_owners d)) (\<lambda>xs. Inr (Some xs))
            else Inr None) (\<lambda>ow.
     bindE (if has_members c
            then bindE (list_str_validator (raw_members d)) (\<lambda>xs. Inr (Some xs))
            else Inr None) (\<lambda>mem.
     if \<not> raw_aad_extras_valid d then Inl ValidationError
     else
       (let self = \<lparr> aad_id = i, displayName = dn, owners = ow, members = mem,
                      aad_labels = aad_class_labels c, aad_relationships = [] \<rparr>
        in bindE (mapE (owner_relationship self) (getattr_default (owners self))) (\<lambda>r1.
           bindE (mapE (member_relationship self) (getattr_default (members self))) (\<lambda>r2.
           bindE (aad_hook c (self \<lparr> aad_relationships := r1 @ r2 \<rparr>)) (\<lambda>r3.
             Inr (self \<lparr> aad_relationships := r1 @ r2 @ r3 \<rparr>)))))))))"

text \<open>The concrete classes of the family.\<close>

definition default_aad_hook :: "aad_instance \<Rightarrow> error + rel_item list" where
  "default_aad_hook self = Inr Node_relationships"

definition AADApplication :: aad_class where
  "AADApplication = \<lparr> aad_name = ''AADApplication'', has_owners = True, has_members = False,
                       aad_hook = default_aad_hook \<rparr>"

definition AADServicePrincipal :: aad_class where
  "AADServicePrincipal = \<lparr> aad_name = ''AADServicePrincipal'', has_owners = True,
                            has_members = False, aad_hook = default_aad_hook \<rparr>"

definition AADGroup :: aad_class where
  "AADGroup = \<lparr> aad_name = ''AADGroup'', has_owners = True, has_members = True,
                 aad_hook = default_aad_hook \<rparr>"

definition AADRole :: aad_class where
  "AADRole = \<lparr> aad_name = ''AADRole'', has_owners = False, has_members = True,
                aad_hook = default_aad_hook \<rparr>"

definition AADUser :: aad_class where
  "AADUser = \<lparr> aad_name = ''AADUser'', has_owners = False, has_members = False,
                aad_hook = default_aad_hook \<rparr>"

section \<open>ARM resources\<close>

subsection \<open>Parsing the id\<close>

text \<open>
  \<^verbatim>\<open>ARMResource.subscription\<close>:
  \<^verbatim>\<open>self.id.split("/")[2] if "subscriptions" in self.id else None\<close>.
\<close>

definition subscription :: "string \<Rightarrow> error + string option" where
  "subscription i =
     (if str_contains ''subscriptions'' i
      then bindE (py_index (py_split ''/'' i) 2) (\<lambda>s. Inr (Some s))
      else Inr None)"

text \<open>
  \<^verbatim>\<open>ARMResource.resourcegroup\<close>:
  \<^verbatim>\<open>self.id.split("/providers")[0] if "providers" in self.id else None\<close>.
\<close>

definition resourcegroup :: "string \<Rightarrow> error + string option" where
  "resourcegroup i =
     (if str_contains ''providers'' i
      then bindE (py_index (py_split ''/providers'' i) 0) (\<lambda>s. Inr (Some s))
      else Inr None)"

subsection \<open>Field validators\<close>

text \<open>
  \<^verbatim>\<open>ARMResource.convert_to_list\<close>, the validator of \<^verbatim>\<open>tags\<close> that runs before the field's
  own validation: for a value that is true, \<^verbatim>\<open>as_list.extend([k, v])\<close> for every item of
  \<^verbatim>\<open>dict_value.items()\<close>; \<^verbatim>\<open>None\<close> otherwise. A true value that is not a mapping has no
  \<^verbatim>\<open>items\<close>.
\<close>

fun flatten_items :: "(string \<times> json) list \<Rightarrow> json list" where
  "flatten_items [] = []"
| "flatten_items ((k, v) # kvs) = JStr k # v # flatten_items kvs"

definition convert_to_list :: "json \<Rightarrow> error + json list option" where
  "convert_to_list dict_value =
     (if truthy dict_value
      then (case dict_value of
              JObj kvs \<Rightarrow> Inr (Some (flatten_items kvs))
            | _ \<Rightarrow> Inl AttributeError)
      else Inr None)"

text \<open>The field \<^verbatim>\<open>tags: Optional[List[str]]\<close>: the validator above, then every element as \<^verbatim>\<open>str\<close>.\<close>

definition tags_validator :: "json \<Rightarrow> error + string list option" where
  "tags_validator v =
     bindE (convert_to_list v) (\<lambda>r.
       case r of
         None \<Rightarrow> Inr None
       | Some xs \<Rightarrow> bindE (mapE str_validator xs) (\<lambda>ys. Inr (Some ys)))"

text \<open>
  The field \<^verbatim>\<open>properties: Optional[DynamicObject]\<close>: \<^verbatim>\<open>props_to_obj\<close> is
  \<^verbatim>\<open>DynamicObject.from_dict\<close>, which keeps \<^verbatim>\<open>None\<close> and turns a mapping into a
  \<^verbatim>\<open>DynamicObject\<close>; any other value is not an instance of the declared class.
\<close>

fun properties_validator :: "json \<Rightarrow> error + json option" where
  "properties_validator JNull = Inr None"
| "properties_validator (JObj kvs) = Inr (Some (JObj kvs))"
| "properties_validator v = Inl ValidationError"

subsection \<open>Attribute access on the properties tree\<close>

text \<open>
  \<^verbatim>\<open>getattr(obj, name)\<close> on a value of the properties tree: a \<^verbatim>\<open>DynamicObject\<close> has the
  entries of its \<^verbatim>\<open>__dict__\<close> as attributes; \<^verbatim>\<open>AttributeError\<close> otherwise. (The names the
  source asks for, the declared extraction fields and \<^verbatim>\<open>accessPolicies\<close>, \<^verbatim>\<open>objectId\<close>,
  \<^verbatim>\<open>permissions\<close>, are not names of attributes that Python's built-in values carry.)
\<close>

fun py_getattr :: "json \<Rightarrow> string \<Rightarrow> error + json" where
  "py_getattr (JObj kvs) name =
     (case map_of kvs name of None \<Rightarrow> Inl AttributeError | Some v \<Rightarrow> Inr v)"
| "py_getattr v name = Inl AttributeError"

text \<open>\<^verbatim>\<open>operator.attrgetter(field)(obj)\<close>: one attribute access for each dotted segment.\<close>

fun attrgetter_names :: "string list \<Rightarrow> json \<Rightarrow> error + json" where
  "attrgetter_names [] obj = Inr obj"
| "attrgetter_names (n # ns) obj = bindE (py_getattr obj n) (attrgetter_names ns)"

definition attrgetter :: "string \<Rightarrow> json \<Rightarrow> error + json" where
  "attrgetter field obj = attrgetter_names (py_split ''.'' field) obj"

text \<open>
  The body of the loop over \<^verbatim>\<open>__xfields__\<close>: the \<^verbatim>\<open>try\<close> turns every failure of the
  lookup into \<^verbatim>\<open>None\<close>, and the value is stored in \<^verbatim>\<open>__xdict__\<close> under
  \<^verbatim>\<open>field.split(".")[-1]\<close>.
\<close>

definition xfield_value :: "json \<Rightarrow> string \<Rightarrow> json" where
  "xfield_value props field = (case attrgetter field props of Inl e \<Rightarrow> JNull | Inr v \<Rightarrow> v)"

definition field_name :: "string \<Rightarrow> string" where
  "field_name field = last (py_split ''.'' field)"

definition extract_xfields :: "string list \<Rightarrow> json \<Rightarrow> (string \<rightharpoonup> json)" where
  "extract_xfields paths props =
     fold (\<lambda>field xd. xd(field_name field \<mapsto> xfield_value props field)) paths Map.empty"

subsection \<open>Construction\<close>

text \<open>
  An instance. Besides the declared fields it has the private attributes: \<^verbatim>\<open>__xdict__\<close>
  and \<^verbatim>\<open>_relationships\<close>, and \<^verbatim>\<open>__xfields__\<close>, which \<^verbatim>\<open>ARMResource\<close> declares as
  \<^verbatim>\<open>__xfields__: ClassVar[List[str]] = PrivateAttr(default_factory=list)\<close> and which
  pydantic therefore sets on every instance. \<open>self_xfields\<close> is the value that
  \<^verbatim>\<open>self.__xfields__\<close> reads; \<open>xfields_in_dict\<close> says whether that value lies in the
  instance's \<^verbatim>\<open>__dict__\<close>, among the fields, rather than in the slot of \<^verbatim>\<open>ARMResource\<close>.
\<close>

record arm_instance =
  arm_id :: string
  location :: "string option"
  name :: "string option"
  arm_properties :: "json option"
  tags :: "string list option"
  self_xfields :: "string list"
  xfields_in_dict :: bool
  xdict :: "string \<rightharpoonup> json"
  arm_labels :: "string list option"
  arm_relationships :: "rel_item list"

text \<open>
  A class of the ARM family: its name, \<^verbatim>\<open>__arm_type__\<close>, the list that its body assigns to
  \<^verbatim>\<open>__xfields__\<close> (\<open>None\<close> when the body assigns none, as in \<^verbatim>\<open>ResourceGroup\<close>),
  \<^verbatim>\<open>__map_to_resourcegroup__\<close> and its \<^verbatim>\<open>__relationships__\<close>.
\<close>

record arm_class =
  arm_name :: string
  arm_type :: string
  xfields :: "string list option"
  map_to_resourcegroup :: bool
  arm_hook :: "arm_instance \<Rightarrow> error + rel_item list"

text \<open>
  A raw ARM record. \<open>raw_arm_extras_valid\<close> says whether the fields that only the concrete
  class declares pass their validation.
\<close>

record arm_raw =
  raw_arm_id :: json
  raw_location :: json
  raw_name :: json
  raw_properties :: json
  raw_tags :: json
  raw_arm_extras_valid :: bool

definition arm_class_labels :: "arm_class \<Rightarrow> string list option" where
  "arm_class_labels c = labels_of (arm_name c) ''ARMResource''"

definition ResourceGroup_labels :: "string list option" where
  "ResourceGroup_labels = labels_of ''ResourceGroup'' ''ARMResource''"

text \<open>\<^verbatim>\<open>None\<close> or a string, as the argument of a constructor.\<close>

definition opt_str :: "string option \<Rightarrow> json" where
  "opt_str v = (case v of None \<Rightarrow> JNull | Some s \<Rightarrow> JStr s)"

text \<open>
  The default relationship of \<^verbatim>\<open>ARMResource.__init__\<close>: when the class maps to its
  resource group, a \<^verbatim>\<open>Contains\<close> relationship from \<^verbatim>\<open>self.resourcegroup\<close> to
  \<^verbatim>\<open>self.id\<close> is built and appended, whatever \<^verbatim>\<open>self.resourcegroup\<close> returned.
\<close>

definition default_relationships :: "arm_class \<Rightarrow> arm_instance \<Rightarrow> error + rel_item list" where
  "default_relationships c self =
     (if map_to_resourcegroup c
      then bindE (resourcegroup (arm_id self)) (\<lambda>rg.
           bindE (Relationship_init (opt_str rg) ResourceGroup_labels
                    (JStr (arm_id self)) (arm_labels self) Contains JNull) (\<lambda>r.
             Inr [Rel r]))
      else Inr [])"

text \<open>
  The private attribute \<^verbatim>\<open>__xfields__\<close> of an instance. At the end of
  \<^verbatim>\<open>BaseModel.__init__\<close> pydantic sets every private attribute of the class on the
  instance to its default, here the result of \<^verbatim>\<open>default_factory=list\<close>, the empty list.
  The attribute is inherited by every class of the family. In a class whose body assigns
  its own \<^verbatim>\<open>__xfields__\<close> list (\<^verbatim>\<open>KeyVault\<close>, \<^verbatim>\<open>StorageAccount\<close>), the name resolves
  on the class to that plain list, which is no data descriptor, so the assignment goes to
  the instance's \<^verbatim>\<open>__dict__\<close>; in the other classes it goes to the slot. Either way the
  instance's value is what \<^verbatim>\<open>self.__xfields__\<close> reads: the class's list is shadowed.
\<close>

definition private_xfields_default :: "string list" where
  "private_xfields_default = []"

definition instance_xfields :: "arm_class \<Rightarrow> string list" where
  "instance_xfields c = private_xfields_default"

definition instance_xfields_in_dict :: "arm_class \<Rightarrow> bool" where
  "instance_xfields_in_dict c = (xfields c \<noteq> None)"

text \<open>
  The extraction step of \<^verbatim>\<open>ARMResource.__init__\<close>,
  \<^verbatim>\<open>if self.properties and self.__xfields__: for field in self.__xfields__: ...\<close>:
  \<^verbatim>\<open>self.properties\<close> is true when it is a \<^verbatim>\<open>DynamicObject\<close> (\<^verbatim>\<open>None\<close> is not), and
  \<^verbatim>\<open>self.__xfields__\<close> is the instance's list. \<^verbatim>\<open>__xdict__\<close> starts empty.
\<close>

definition init_xdict :: "string list \<Rightarrow> json option \<Rightarrow> (string \<rightharpoonup> json)" where
  "init_xdict xfs props =
     (case props of
        None \<Rightarrow> Map.empty
      | Some p \<Rightarrow> if xfs \<noteq> [] then extract_xfields xfs p else Map.empty)"

text \<open>
  \<^verbatim>\<open>ARMResource.__init__\<close>: the fields are validated and the private attributes set; the
  extraction step runs; the default relationship is appended; the list is extended with
  what the hook yields.
\<close>

definition validated_self ::
  "arm_class \<Rightarrow> string \<Rightarrow> string option \<Rightarrow> string option \<Rightarrow> json option
     \<Rightarrow> string list option \<Rightarrow> arm_instance" where
  "validated_self c i loc nm props tgs =
     \<lparr> arm_id = i, location = loc, name = nm, arm_properties = props, tags = tgs,
       self_xfields = instance_xfields c,
       xfields_in_dict = instance_xfields_in_dict c,
       xdict = init_xdict (instance_xfields c) props, arm_labels = arm_class_labels c,
       arm_relationships = [] \<rparr>"

definition ARMResource_init :: "arm_class \<Rightarrow> arm_raw \<Rightarrow> error + arm_instance" where
  "ARMResource_init c d =
     bindE (str_validator (raw_arm_id d)) (\<lambda>i.
     bindE (optional_str_validator (raw_location d)) (\<lambda>loc.
     bindE (optional_str_validator (raw_name d)) (\<lambda>nm.
     bindE (properties_validator (raw_properties d)) (\<lambda>props.
     bindE (tags_validator (raw_tags d)) (\<lambda>tgs.
     if \<not> raw_arm_extras_valid d then Inl ValidationError
     else
       (let self = validated_self c i loc nm props tgs
        in bindE (default_relationships c self) (\<lambda>r1.
           bindE (arm_hook c (self \<lparr> arm_relationships := r1 \<rparr>)) (\<lambda>r2.
             Inr (self \<lparr> arm_relationships := r1 @ r2 \<rparr>)))))))))"

subsection \<open>Export\<close>

text \<open>
  \<^verbatim>\<open>ARMResource.node\<close>: \<^verbatim>\<open>self.dict(exclude={"properties"})\<close>, overridden by
  \<^verbatim>\<open>__xdict__\<close>, overridden by the entry \<^verbatim>\<open>_relationships\<close>. A value of the export is a
  raw value or the relationship list. \<^verbatim>\<open>self.dict\<close> goes through the instance's
  \<^verbatim>\<open>__dict__\<close>: the declared fields, and the entry \<^verbatim>\<open>__xfields__\<close> when the private
  attribute landed there.
\<close>

datatype export_value = Val json | Rels "rel_item list"

definition opt_list :: "string list option \<Rightarrow> json" where
  "opt_list v = (case v of None \<Rightarrow> JNull | Some xs \<Rightarrow> JArr (map JStr xs))"

definition ARMResource_dict :: "arm_instance \<Rightarrow> (string \<rightharpoonup> export_value)" where
  "ARMResource_dict self =
     map_of ([(''id'', Val (JStr (arm_id self))),
              (''location'', Val (opt_str (location self))),
              (''name'', Val (opt_str (name self))),
              (''tags'', Val (opt_list (tags self)))]
             @ (if xfields_in_dict self
                then [(''__xfields__'', Val (JArr (map JStr (self_xfields self))))]
                else []))"

definition ARMResource_node :: "arm_instance \<Rightarrow> (string \<rightharpoonup> export_value)" where
  "ARMResource_node self =
     (ARMResource_dict self
        ++ (\<lambda>k. map_option Val (xdict self k)))
        ++ [''_relationships'' \<mapsto> Rels (arm_relationships self)]"

subsection \<open>The concrete classes\<close>

definition default_arm_hook :: "arm_instance \<Rightarrow> error + rel_item list" where
  "default_arm_hook self = Inr Node_relationships"

text \<open>
  Iterating a value, as \<^verbatim>\<open>for policy in ...\<close> does: the elements of a list, the characters
  of a string; other values are not iterable.
\<close>

fun py_iter :: "json \<Rightarrow> error + json list" where
  "py_iter (JArr xs) = Inr xs"
| "py_iter (JStr s) = Inr (map (\<lambda>c. JStr [c]) s)"
| "py_iter v = Inl TypeError"

text \<open>
  \<^verbatim>\<open>KeyVault.__relationships__\<close>: one \<^verbatim>\<open>HasAccessPolicies\<close> relationship for each policy
  of \<^verbatim>\<open>self.properties.accessPolicies\<close>. \<^verbatim>\<open>self.properties\<close> may be \<^verbatim>\<open>None\<close>, which has
  no attribute \<^verbatim>\<open>accessPolicies\<close>.
\<close>

definition policy_relationship :: "arm_instance \<Rightarrow> json \<Rightarrow> error + rel_item" where
  "policy_relationship self policy =
     bindE (py_getattr policy ''objectId'') (\<lambda>oid.
     bindE (py_getattr policy ''permissions'') (\<lambda>perms.
     bindE (Relationship_init oid AADObject_labels (JStr (arm_id self)) (arm_labels self)
              HasAccessPolicies perms) (\<lambda>r.
       Inr (Rel r))))"

definition KeyVault_relationships :: "arm_instance \<Rightarrow> error + rel_item list" where
  "KeyVault_relationships self =
     bindE (case arm_properties self of
              None \<Rightarrow> Inl AttributeError
            | Some p \<Rightarrow> py_getattr p ''accessPolicies'') (\<lambda>aps.
     bindE (py_iter aps) (\<lambda>policies.
       mapE (policy_relationship self) policies))"

definition ResourceGroup :: arm_class where
  "ResourceGroup = \<lparr> arm_name = ''ResourceGroup'',
                      arm_type = ''microsoft.resources/resourcegroups'',
                      xfields = None, map_to_resourcegroup = False,
                      arm_hook = default_arm_hook \<rparr>"

definition KeyVault :: arm_class where
  "KeyVault = \<lparr> arm_name = ''KeyVault'', arm_type = ''microsoft.keyvault/vaults'',
                 xfields = Some [''enableSoftDelete'', ''softDeleteRetentionInDays'',
                                 ''enableRbacAuthorization'', ''enablePurgeProtection'',
                                 ''vaultUri''],
                 map_to_resourcegroup = True,
                 arm_hook = KeyVault_relationships \<rparr>"

definition StorageAccount :: arm_class where
  "StorageAccount = \<lparr> arm_name = ''StorageAccount'',
                       arm_type = ''microsoft.storage/storageaccounts'',
                       xfields = Some [''accessTier'', ''creationTime'',
                                       ''supportsHttpsTrafficOnly''],
                       map_to_resourcegroup = True,
                       arm_hook = default_arm_hook \<rparr>"

subsection \<open>Reading a flat tag list back\<close>

text \<open>
  Not a function of the module: the consecutive pairs \<open>[k1, v1, k2, v2, ...]\<close> of a flat
  tag list, read back as the items of a mapping. It stops at an element in key position that
  is not a string, and at a key with no value after it.
\<close>

fun pairs_of :: "json list \<Rightarrow> (string \<times> json) list" where
  "pairs_of (JStr k # v # rest) = (k, v) # pairs_of rest"
| "pairs_of xs = []"

section \<open>Relationships of AAD objects\<close>

text \<open>
  Claim C1: an AAD object constructed with an \<^verbatim>\<open>owners\<close> list gets one \<^verbatim>\<open>Owns\<close>
  relationship for each owner id, with the owner as source and the object's own id as target.
  The constructor builds the relationship the other way round: for the application
  \<^verbatim>\<open>app1\<close> owned by \<^verbatim>\<open>u1\<close>, the only relationship has source \<^verbatim>\<open>app1\<close> (with the
  application's labels) and target \<^verbatim>\<open>u1\<close>. The \<^verbatim>\<open>MemberOf\<close> loop next to it puts the
  listed id in the source, as do the other relationships of the module, whose names all read
  from source to target.
\<close>

theorem C1_owns_source_is_self:
  "map_sum id (\<lambda>i. map (\<lambda>r. (source r, relation r, target r)) (rels_of (aad_relationships i)))
     (AADObject_init AADApplication
        \<lparr> raw_aad_id = JStr ''app1'', raw_displayName = JStr ''App'',
          raw_owners = JArr [JStr ''u1''], raw_members = JNull,
          raw_aad_extras_valid = True \<rparr>)
   = Inr [(''app1'', Owns, ''u1'')]"
  by (simp add: AADObject_init_def AADApplication_def bindE_def Relationship_init_def
      owner_relationship_def member_relationship_def getattr_default_def default_aad_hook_def
      Node_relationships_def aad_class_labels_def AADObject_labels_def labels_of_def Let_def)

section \<open>The id of an ARM resource\<close>

text \<open>
  Claim C2: for an ARM resource that maps to its resource group and whose id has no
  \<^verbatim>\<open>/providers\<close> segment, \<^verbatim>\<open>resourcegroup\<close> is null, no \<^verbatim>\<open>Contains\<close> relationship is
  emitted and construction succeeds. The constructor does not look at what
  \<^verbatim>\<open>resourcegroup\<close> returned: it passes the \<^verbatim>\<open>None\<close> as the source of a
  \<^verbatim>\<open>Relationship\<close>, whose \<^verbatim>\<open>source: str\<close> refuses it, so the construction of a storage
  account with the id of its resource group raises.
\<close>

theorem C2_no_providers_construction_raises:
  "resourcegroup ''/subscriptions/S/resourceGroups/G'' = Inr None
   \<and> ARMResource_init StorageAccount
        \<lparr> raw_arm_id = JStr ''/subscriptions/S/resourceGroups/G'', raw_location = JNull,
          raw_name = JNull, raw_properties = JNull, raw_tags = JNull,
          raw_arm_extras_valid = True \<rparr>
      = Inl ValidationError"
  by (simp add: ARMResource_init_def validated_self_def init_xdict_def instance_xfields_def private_xfields_default_def instance_xfields_in_dict_def StorageAccount_def bindE_def Relationship_init_def
      default_relationships_def resourcegroup_def py_index_def opt_str_def
      ResourceGroup_labels_def arm_class_labels_def labels_of_def optional_str_validator_def
      tags_validator_def convert_to_list_def Let_def)

text \<open>
  Claim C3: \<^verbatim>\<open>subscription\<close> and \<^verbatim>\<open>resourcegroup\<close> return null for every id that does
  not match the ARM path grammar and never raise. \<^verbatim>\<open>subscription\<close> guards its
  \<^verbatim>\<open>split("/")[2]\<close> with \<^verbatim>\<open>"subscriptions" in self.id\<close> only: on the id
  \<^verbatim>\<open>subscriptions\<close> the split has one element and the index raises.
\<close>

theorem C3_subscription_raises:
  "subscription ''subscriptions'' = Inl IndexError"
  by (simp add: subscription_def py_index_def bindE_def)

section \<open>The relationship hook\<close>

text \<open>
  Claim C4: the relationship hook contributes nothing by default, and what an overriding hook
  contributes comes after the default relationships. The default hook is a generator that
  yields one element, an empty list, and \<^verbatim>\<open>extend\<close> puts it into the relationship list:
  a resource group, which has no default relationship and does not override the hook, ends
  with the relationship list \<^verbatim>\<open>[[]]\<close>.
\<close>

theorem C4_default_hook_yields_empty_list:
  "map_sum id arm_relationships
     (ARMResource_init ResourceGroup
        \<lparr> raw_arm_id = JStr ''/subscriptions/S/resourceGroups/G'', raw_location = JNull,
          raw_name = JNull, raw_properties = JNull, raw_tags = JNull,
          raw_arm_extras_valid = True \<rparr>)
   = Inr [EmptyList]"
  by (simp add: ARMResource_init_def validated_self_def init_xdict_def instance_xfields_def private_xfields_default_def instance_xfields_in_dict_def ResourceGroup_def bindE_def default_relationships_def
      default_arm_hook_def Node_relationships_def optional_str_validator_def
      tags_validator_def convert_to_list_def Let_def)

section \<open>The ids of a relationship\<close>

text \<open>
  Claim C5, as amended: the source id and the target id of a successfully constructed
  relationship are strings, never null: each is the argument that the constructor was given,
  as the validation of a \<^verbatim>\<open>str\<close> field accepts it. (They may be empty: no validator
  looks at their length.)
\<close>

theorem C5_ids_are_validated_strings:
  assumes "Relationship_init src srcl tgt tgtl rel props = Inr r"
  shows "src \<noteq> JNull \<and> tgt \<noteq> JNull
         \<and> str_validator src = Inr (source r) \<and> str_validator tgt = Inr (target r)"
proof -
  from assms obtain s where s: "str_validator src = Inr s"
    by (cases "str_validator src") (simp_all add: Relationship_init_def bindE_def)
  from assms s obtain l where l: "srcl = Some l"
    by (cases srcl) (simp_all add: Relationship_init_def bindE_def)
  from assms s l obtain t where t: "str_validator tgt = Inr t"
    by (cases "str_validator tgt") (simp_all add: Relationship_init_def bindE_def)
  from assms s l t obtain l' where l': "tgtl = Some l'"
    by (cases tgtl) (simp_all add: Relationship_init_def bindE_def)
  from assms s l t l' have "source r = s" "target r = t"
    by (auto simp: Relationship_init_def bindE_def)
  moreover from s have "src \<noteq> JNull" by auto
  moreover from t have "tgt \<noteq> JNull" by auto
  ultimately show ?thesis using s t by simp
qed

theorem C5_ids_are_validated_strings_witness:
  "Relationship_init (JStr ''u1'') (Some [''AADOBJECT'']) (JStr ''g1'') (Some [''AADOBJECT''])
     MemberOf JNull
   = Inr \<lparr> source = ''u1'', source_label = [''AADOBJECT''], target = ''g1'',
           target_label = [''AADOBJECT''], relation = MemberOf, properties = None \<rparr>
   \<and> JStr ''u1'' \<noteq> JNull \<and> JStr ''g1'' \<noteq> JNull
   \<and> str_validator (JStr ''u1'') = Inr ''u1'' \<and> str_validator (JStr ''g1'') = Inr ''g1''"
proof -
  have h: "Relationship_init (JStr ''u1'') (Some [''AADOBJECT'']) (JStr ''g1'')
             (Some [''AADOBJECT'']) MemberOf JNull
           = Inr \<lparr> source = ''u1'', source_label = [''AADOBJECT''], target = ''g1'',
                   target_label = [''AADOBJECT''], relation = MemberOf, properties = None \<rparr>"
    by (simp add: Relationship_init_def bindE_def)
  from C5_ids_are_validated_strings [OF h] h show ?thesis by simp
qed

text \<open>
  Claim C5 as stated (the source id and the target id are non-empty) fails: a relationship
  whose source and target are the empty string is constructed.
\<close>

theorem C5_empty_ids_counterexample:
  "Relationship_init (JStr []) (Some [''AADOBJECT'']) (JStr []) (Some [''AADOBJECT''])
     MemberOf JNull
   = Inr \<lparr> source = [], source_label = [''AADOBJECT''], target = [],
           target_label = [''AADOBJECT''], relation = MemberOf, properties = None \<rparr>"
  by (simp add: Relationship_init_def bindE_def)

section \<open>The resource group of an ARM resource\<close>

text \<open>
  Claim C6: for an ARM resource that maps to its resource group and whose id is
  \<^verbatim>\<open>/subscriptions/S/resourceGroups/G/providers/...\<close>, \<^verbatim>\<open>subscription\<close> is \<^verbatim>\<open>S\<close>,
  \<^verbatim>\<open>resourcegroup\<close> is \<^verbatim>\<open>/subscriptions/S/resourceGroups/G\<close>, and exactly one
  \<^verbatim>\<open>Contains\<close> relationship leads from that resource group to the full id.
  \<^verbatim>\<open>resourcegroup\<close> cuts the id at the first occurrence of the text \<^verbatim>\<open>/providers\<close>,
  which need not be the \<^verbatim>\<open>providers\<close> segment: for the resource group
  \<^verbatim>\<open>providers-rg\<close> the cut falls before its name, and the \<^verbatim>\<open>Contains\<close> relationship
  starts at \<^verbatim>\<open>/subscriptions/S/resourceGroups\<close>.
\<close>

theorem C6_resourcegroup_cut_too_early:
  "map_sum id (\<lambda>i. map (\<lambda>r. (source r, relation r, target r)) (rels_of (arm_relationships i)))
     (ARMResource_init StorageAccount
        \<lparr> raw_arm_id = JStr ''/subscriptions/S/resourceGroups/providers-rg/providers/Microsoft.Storage/storageAccounts/acct'',
          raw_location = JNull, raw_name = JNull, raw_properties = JNull, raw_tags = JNull,
          raw_arm_extras_valid = True \<rparr>)
   = Inr [(''/subscriptions/S/resourceGroups'', Contains,
           ''/subscriptions/S/resourceGroups/providers-rg/providers/Microsoft.Storage/storageAccounts/acct'')]"
  by (simp add: ARMResource_init_def validated_self_def init_xdict_def instance_xfields_def private_xfields_default_def instance_xfields_in_dict_def StorageAccount_def bindE_def Relationship_init_def
      default_relationships_def resourcegroup_def py_index_def opt_str_def
      ResourceGroup_labels_def arm_class_labels_def labels_of_def optional_str_validator_def
      tags_validator_def convert_to_list_def default_arm_hook_def Node_relationships_def
      Let_def)

section \<open>Construction of an ARM resource, taken apart\<close>

text \<open>A sequence of fallible steps succeeds when each step does.\<close>

lemma bindE_Inr_iff: "bindE m f = Inr y \<longleftrightarrow> (\<exists>x. m = Inr x \<and> f x = Inr y)"
  by (cases m) (simp_all add: bindE_def)

text \<open>
  A successful construction went through the validation of the fields, the default
  relationships and the hook, in this order, and its relationship list is the default
  relationships followed by what the hook yielded.
\<close>

lemma ARMResource_init_InrD:
  assumes "ARMResource_init c d = Inr inst"
  shows "\<exists>i loc nm props tgs r1 r2.
           str_validator (raw_arm_id d) = Inr i
         \<and> properties_validator (raw_properties d) = Inr props
         \<and> default_relationships c (validated_self c i loc nm props tgs) = Inr r1
         \<and> arm_hook c ((validated_self c i loc nm props tgs) \<lparr> arm_relationships := r1 \<rparr>) = Inr r2
         \<and> inst = (validated_self c i loc nm props tgs) \<lparr> arm_relationships := r1 @ r2 \<rparr>"
  using assms
  by (simp add: ARMResource_init_def Let_def bindE_Inr_iff split: if_splits) blast

lemma KeyVault_hook_needs_accessPolicies:
  assumes "KeyVault_relationships self = Inr rs"
  shows "\<exists>p aps. arm_properties self = Some p \<and> py_getattr p ''accessPolicies'' = Inr aps"
  using assms
  by (auto simp: KeyVault_relationships_def bindE_Inr_iff split: option.splits)

section \<open>Tags\<close>

lemma flatten_items_length: "length (flatten_items kvs) = 2 * length kvs"
  by (induction kvs rule: flatten_items.induct) simp_all

lemma pairs_of_flatten_items: "pairs_of (flatten_items kvs) = kvs"
  by (induction kvs rule: flatten_items.induct) simp_all

lemma convert_to_list_items:
  "kvs \<noteq> [] \<Longrightarrow> convert_to_list (JObj kvs) = Inr (Some (flatten_items kvs))"
  by (simp add: convert_to_list_def)

text \<open>
  Claim C7: a non-empty tags mapping is normalised to a flat sequence of even length,
  \<open>[k1, v1, k2, v2, ...]\<close>, whose consecutive pairs give back the mapping, in whatever
  order the mapping is iterated (any arrangement \<open>kvs'\<close> of the same items of a mapping with
  distinct keys gives a sequence that reads back as the same mapping); an absent or empty
  mapping is normalised to null, not to an empty sequence.
\<close>

theorem C7_tags_flattening:
  "(kvs \<noteq> [] \<longrightarrow> distinct (map fst kvs) \<longrightarrow>
      (\<exists>flat. convert_to_list (JObj kvs) = Inr (Some flat)
         \<and> even (length flat)
         \<and> pairs_of flat = kvs
         \<and> map_of (pairs_of flat) = map_of kvs)
      \<and> (\<forall>kvs'. mset kvs' = mset kvs \<longrightarrow>
            (\<exists>flat'. convert_to_list (JObj kvs') = Inr (Some flat')
               \<and> even (length flat')
               \<and> map_of (pairs_of flat') = map_of kvs)))
   \<and> convert_to_list JNull = Inr None
   \<and> convert_to_list (JObj []) = Inr None"
proof (intro conjI impI allI)
  assume ne: "kvs \<noteq> []" and d: "distinct (map fst kvs)"
  show "\<exists>flat. convert_to_list (JObj kvs) = Inr (Some flat) \<and> even (length flat)
          \<and> pairs_of flat = kvs \<and> map_of (pairs_of flat) = map_of kvs"
    using ne by (simp add: convert_to_list_items flatten_items_length pairs_of_flatten_items)
  fix kvs' :: "(string \<times> json) list"
  assume m: "mset kvs' = mset kvs"
  then have ne': "kvs' \<noteq> []" using ne by auto
  from m have "mset (map fst kvs') = mset (map fst kvs)" by simp
  then have d': "distinct (map fst kvs')" using d by (metis mset_eq_imp_distinct_iff)
  from m have "set kvs' = set kvs" by (metis set_mset_mset)
  with d d' have "map_of kvs' = map_of kvs" by (simp add: map_of_inject_set)
  then show "\<exists>flat'. convert_to_list (JObj kvs') = Inr (Some flat') \<and> even (length flat')
          \<and> map_of (pairs_of flat') = map_of kvs"
    using ne' by (simp add: convert_to_list_items flatten_items_length pairs_of_flatten_items)
next
  show "convert_to_list JNull = Inr None" by (simp add: convert_to_list_def)
  show "convert_to_list (JObj []) = Inr None" by (simp add: convert_to_list_def)
qed

theorem C7_tags_flattening_witness:
  "[(''a'', JStr ''1''), (''b'', JStr ''2'')] \<noteq> []
   \<and> distinct (map fst [(''a'', JStr ''1''), (''b'', JStr ''2'')])
   \<and> convert_to_list (JObj [(''a'', JStr ''1''), (''b'', JStr ''2'')])
       = Inr (Some [JStr ''a'', JStr ''1'', JStr ''b'', JStr ''2''])
   \<and> pairs_of [JStr ''a'', JStr ''1'', JStr ''b'', JStr ''2'']
       = [(''a'', JStr ''1''), (''b'', JStr ''2'')]
   \<and> mset [(''b'', JStr ''2''), (''a'', JStr ''1'')]
       = mset [(''a'', JStr ''1''), (''b'', JStr ''2'')]
   \<and> convert_to_list (JObj [(''b'', JStr ''2''), (''a'', JStr ''1'')])
       = Inr (Some [JStr ''b'', JStr ''2'', JStr ''a'', JStr ''1''])
   \<and> map_of (pairs_of [JStr ''b'', JStr ''2'', JStr ''a'', JStr ''1''])
       = map_of [(''a'', JStr ''1''), (''b'', JStr ''2'')]"
proof -
  let ?kvs = "[(''a'', JStr ''1''), (''b'', JStr ''2'')]"
  let ?kvs' = "[(''b'', JStr ''2''), (''a'', JStr ''1'')]"
  have ne: "?kvs \<noteq> []" and d: "distinct (map fst ?kvs)" by simp_all
  have m: "mset ?kvs' = mset ?kvs" by simp
  have c: "convert_to_list (JObj ?kvs) = Inr (Some [JStr ''a'', JStr ''1'', JStr ''b'', JStr ''2''])"
    by (simp add: convert_to_list_def)
  have c': "convert_to_list (JObj ?kvs') = Inr (Some [JStr ''b'', JStr ''2'', JStr ''a'', JStr ''1''])"
    by (simp add: convert_to_list_def)
  from C7_tags_flattening [of ?kvs] ne d
  have "\<forall>kvs'. mset kvs' = mset ?kvs \<longrightarrow>
          (\<exists>flat'. convert_to_list (JObj kvs') = Inr (Some flat') \<and> even (length flat')
             \<and> map_of (pairs_of flat') = map_of ?kvs)"
    by blast
  with m have "\<exists>flat'. convert_to_list (JObj ?kvs') = Inr (Some flat') \<and> even (length flat')
             \<and> map_of (pairs_of flat') = map_of ?kvs"
    by blast
  with c' have "map_of (pairs_of [JStr ''b'', JStr ''2'', JStr ''a'', JStr ''1'']) = map_of ?kvs"
    by auto
  with ne d m c c' show ?thesis by simp
qed

section \<open>Key vaults\<close>

text \<open>
  Claim C10: the construction of a key vault whose record has no \<^verbatim>\<open>properties\<close>, or whose
  properties have no entry \<^verbatim>\<open>accessPolicies\<close>, raises an error; it does not succeed with
  no \<^verbatim>\<open>HasAccessPolicies\<close> relationship, although \<^verbatim>\<open>properties\<close> is optional.
\<close>

theorem C10_keyvault_without_policies_raises:
  assumes "raw_properties d = JNull
           \<or> (\<exists>kvs. raw_properties d = JObj kvs \<and> map_of kvs ''accessPolicies'' = None)"
  shows "\<exists>e. ARMResource_init KeyVault d = Inl e"
proof (cases "ARMResource_init KeyVault d")
  case (Inl e)
  then show ?thesis by blast
next
  case (Inr inst)
  from ARMResource_init_InrD [OF Inr] obtain i loc nm props tgs r1 r2 where
    pv: "properties_validator (raw_properties d) = Inr props" and
    hook: "arm_hook KeyVault ((validated_self KeyVault i loc nm props tgs) \<lparr> arm_relationships := r1 \<rparr>) = Inr r2"
    by blast
  from hook have "KeyVault_relationships ((validated_self KeyVault i loc nm props tgs) \<lparr> arm_relationships := r1 \<rparr>) = Inr r2"
    by (simp add: KeyVault_def)
  from KeyVault_hook_needs_accessPolicies [OF this] obtain p aps where
    p: "props = Some p" and aps: "py_getattr p ''accessPolicies'' = Inr aps"
    by (auto simp: validated_self_def)
  from assms show ?thesis
  proof
    assume "raw_properties d = JNull"
    with pv p show ?thesis by simp
  next
    assume "\<exists>kvs. raw_properties d = JObj kvs \<and> map_of kvs ''accessPolicies'' = None"
    then obtain kvs where "raw_properties d = JObj kvs" "map_of kvs ''accessPolicies'' = None"
      by blast
    with pv p aps show ?thesis by auto
  qed
qed

theorem C10_keyvault_without_policies_raises_witness:
  "raw_properties
     \<lparr> raw_arm_id = JStr ''/subscriptions/S/resourceGroups/G/providers/Microsoft.KeyVault/vaults/v'',
       raw_location = JNull, raw_name = JNull, raw_properties = JNull, raw_tags = JNull,
       raw_arm_extras_valid = True \<rparr> = JNull
   \<and> (\<exists>e. ARMResource_init KeyVault
          \<lparr> raw_arm_id = JStr ''/subscriptions/S/resourceGroups/G/providers/Microsoft.KeyVault/vaults/v'',
            raw_location = JNull, raw_name = JNull, raw_properties = JNull, raw_tags = JNull,
            raw_arm_extras_valid = True \<rparr> = Inl e)
   \<and> map_of [(''vaultUri'', JStr ''https://v'')] ''accessPolicies'' = None
   \<and> (\<exists>e. ARMResource_init KeyVault
          \<lparr> raw_arm_id = JStr ''/subscriptions/S/resourceGroups/G/providers/Microsoft.KeyVault/vaults/v'',
            raw_location = JNull, raw_name = JNull,
            raw_properties = JObj [(''vaultUri'', JStr ''https://v'')], raw_tags = JNull,
            raw_arm_extras_valid = True \<rparr> = Inl e)"
  using C10_keyvault_without_policies_raises
          [of "\<lparr> raw_arm_id = JStr ''/subscriptions/S/resourceGroups/G/providers/Microsoft.KeyVault/vaults/v'',
                 raw_location = JNull, raw_name = JNull, raw_properties = JNull,
                 raw_tags = JNull, raw_arm_extras_valid = True \<rparr>"]
        C10_keyvault_without_policies_raises
          [of "\<lparr> raw_arm_id = JStr ''/subscriptions/S/resourceGroups/G/providers/Microsoft.KeyVault/vaults/v'',
                 raw_location = JNull, raw_name = JNull,
                 raw_properties = JObj [(''vaultUri'', JStr ''https://v'')],
                 raw_tags = JNull, raw_arm_extras_valid = True \<rparr>"]
  by simp

text \<open>A loop of fallible steps that succeeds has run every step, in order.\<close>

lemma mapE_InrD:
  "mapE f xs = Inr ys \<Longrightarrow> length ys = length xs \<and> (\<forall>k<length xs. f (xs ! k) = Inr (ys ! k))"
proof (induction xs arbitrary: ys)
  case Nil
  then show ?case by simp
next
  case (Cons x xs)
  from Cons.prems obtain y ys' where y: "f x = Inr y" and ys': "mapE f xs = Inr ys'"
    and ys: "ys = y # ys'"
    by (auto split: sum.splits)
  from Cons.IH [OF ys'] have len: "length ys' = length xs"
    and nth: "\<forall>k<length xs. f (xs ! k) = Inr (ys' ! k)" by simp_all
  show ?case
  proof (intro conjI allI impI)
    show "length ys = length (x # xs)" using len ys by simp
    fix k assume "k < length (x # xs)"
    then show "f ((x # xs) ! k) = Inr (ys ! k)"
      using y nth ys by (cases k) simp_all
  qed
qed

lemma policy_relationship_InrD:
  assumes "policy_relationship self policy = Inr item"
  shows "\<exists>r oid perms. item = Rel r
           \<and> py_getattr policy ''objectId'' = Inr oid
           \<and> py_getattr policy ''permissions'' = Inr perms
           \<and> str_validator oid = Inr (source r)
           \<and> target r = arm_id self
           \<and> relation r = HasAccessPolicies
           \<and> properties r = format_properties perms"
  using assms
  by (auto simp: policy_relationship_def Relationship_init_def bindE_Inr_iff split: option.splits)

lemma default_relationships_mapped:
  assumes "default_relationships c self = Inr r1" and "map_to_resourcegroup c"
  shows "\<exists>r rg. r1 = [Rel r] \<and> relation r = Contains \<and> resourcegroup (arm_id self) = Inr (Some rg)
           \<and> source r = rg \<and> target r = arm_id self"
  using assms
  by (auto simp: default_relationships_def Relationship_init_def bindE_Inr_iff opt_str_def
      split: option.splits)

lemma all_policy_edges_count:
  "\<forall>x\<in>set items. \<exists>r. x = Rel r \<and> relation r = HasAccessPolicies \<Longrightarrow>
     length (filter (\<lambda>r. relation r = HasAccessPolicies) (rels_of items)) = length items"
  by (induction items rule: rels_of.induct) auto

text \<open>
  Claim C9: a key vault whose \<^verbatim>\<open>properties.accessPolicies\<close> is a sequence of \<open>N\<close>
  entries gets exactly \<open>N\<close> \<^verbatim>\<open>HasAccessPolicies\<close> relationships, and nothing else from
  the hook: the relationship list is the \<^verbatim>\<open>Contains\<close> relationship followed by one
  relationship for each entry, in order, whose source is the entry's \<^verbatim>\<open>objectId\<close> (as the
  \<^verbatim>\<open>str\<close> field takes it), whose target is the vault's id, and whose properties are the
  entry's \<^verbatim>\<open>permissions\<close>, the mapping itself when they are one.
\<close>

theorem C9_keyvault_policy_edges:
  assumes "ARMResource_init KeyVault d = Inr inst"
    and "arm_properties inst = Some p"
    and "py_getattr p ''accessPolicies'' = Inr (JArr ps)"
  shows "\<exists>contains hooked.
           arm_relationships inst = Rel contains # hooked
         \<and> relation contains = Contains
         \<and> length hooked = length ps
         \<and> length (filter (\<lambda>r. relation r = HasAccessPolicies) (rels_of (arm_relationships inst)))
             = length ps
         \<and> (\<forall>k<length ps. \<exists>r oid perms.
               hooked ! k = Rel r
             \<and> relation r = HasAccessPolicies
             \<and> py_getattr (ps ! k) ''objectId'' = Inr oid
             \<and> str_validator oid = Inr (source r)
             \<and> target r = arm_id inst
             \<and> py_getattr (ps ! k) ''permissions'' = Inr perms
             \<and> properties r = format_properties perms
             \<and> (\<forall>m. perms = JObj m \<longrightarrow> properties r = Some m))"
proof -
  from ARMResource_init_InrD [OF assms(1)] obtain i loc nm props tgs r1 r2 where
    dflt: "default_relationships KeyVault (validated_self KeyVault i loc nm props tgs) = Inr r1"
    and hook: "arm_hook KeyVault
                 ((validated_self KeyVault i loc nm props tgs) \<lparr> arm_relationships := r1 \<rparr>)
               = Inr r2"
    and inst: "inst = (validated_self KeyVault i loc nm props tgs)
                        \<lparr> arm_relationships := r1 @ r2 \<rparr>"
    by blast
  let ?self = "(validated_self KeyVault i loc nm props tgs) \<lparr> arm_relationships := r1 \<rparr>"
  have id_self: "arm_id ?self = arm_id inst" and props_self: "arm_properties ?self = Some p"
    using inst assms(2) by (simp_all add: validated_self_def)
  from default_relationships_mapped [OF dflt] obtain contains where
    r1: "r1 = [Rel contains]" and contains: "relation contains = Contains"
    by (auto simp: KeyVault_def)
  from hook have "KeyVault_relationships ?self = Inr r2"
    by (simp add: KeyVault_def)
  with props_self assms(3) have "mapE (policy_relationship ?self) ps = Inr r2"
    by (simp add: KeyVault_relationships_def bindE_def)
  from mapE_InrD [OF this] have len: "length r2 = length ps"
    and each: "\<forall>k<length ps. policy_relationship ?self (ps ! k) = Inr (r2 ! k)"
    by simp_all
  have edges: "\<forall>k<length ps. \<exists>r oid perms.
               r2 ! k = Rel r
             \<and> relation r = HasAccessPolicies
             \<and> py_getattr (ps ! k) ''objectId'' = Inr oid
             \<and> str_validator oid = Inr (source r)
             \<and> target r = arm_id inst
             \<and> py_getattr (ps ! k) ''permissions'' = Inr perms
             \<and> properties r = format_properties perms
             \<and> (\<forall>m. perms = JObj m \<longrightarrow> properties r = Some m)"
  proof (intro allI impI)
    fix k assume "k < length ps"
    with each have "policy_relationship ?self (ps ! k) = Inr (r2 ! k)" by simp
    from policy_relationship_InrD [OF this] id_self show "\<exists>r oid perms.
               r2 ! k = Rel r
             \<and> relation r = HasAccessPolicies
             \<and> py_getattr (ps ! k) ''objectId'' = Inr oid
             \<and> str_validator oid = Inr (source r)
             \<and> target r = arm_id inst
             \<and> py_getattr (ps ! k) ''permissions'' = Inr perms
             \<and> properties r = format_properties perms
             \<and> (\<forall>m. perms = JObj m \<longrightarrow> properties r = Some m)"
      by auto
  qed
  have "\<forall>x\<in>set r2. \<exists>r. x = Rel r \<and> relation r = HasAccessPolicies"
  proof
    fix x assume "x \<in> set r2"
    then obtain k where "k < length r2" "r2 ! k = x" by (auto simp: in_set_conv_nth)
    with edges len show "\<exists>r. x = Rel r \<and> relation r = HasAccessPolicies" by auto
  qed
  from all_policy_edges_count [OF this] len
  have cnt: "length (filter (\<lambda>r. relation r = HasAccessPolicies) (rels_of r2)) = length ps"
    by simp
  have rels: "arm_relationships inst = Rel contains # r2"
    using inst r1 by simp
  from rels contains len cnt edges show ?thesis by simp
qed

theorem C9_keyvault_policy_edges_witness:
  "map_sum id
     (\<lambda>inst. (arm_properties inst,
              length (filter (\<lambda>r. relation r = HasAccessPolicies)
                        (rels_of (arm_relationships inst))),
              map (\<lambda>r. (source r, relation r, target r, properties r))
                (rels_of (arm_relationships inst))))
     (ARMResource_init KeyVault
        \<lparr> raw_arm_id = JStr ''/subscriptions/S/resourceGroups/G/providers/Microsoft.KeyVault/vaults/v'',
          raw_location = JNull, raw_name = JNull,
          raw_properties =
            JObj [(''accessPolicies'',
                   JArr [JObj [(''objectId'', JStr ''p1''),
                               (''permissions'', JObj [(''keys'', JArr [JStr ''get''])])],
                         JObj [(''objectId'', JStr ''p2''),
                               (''permissions'', JObj [(''secrets'', JArr [JStr ''list''])])]])],
          raw_tags = JNull, raw_arm_extras_valid = True \<rparr>)
   = Inr (Some (JObj [(''accessPolicies'',
                   JArr [JObj [(''objectId'', JStr ''p1''),
                               (''permissions'', JObj [(''keys'', JArr [JStr ''get''])])],
                         JObj [(''objectId'', JStr ''p2''),
                               (''permissions'', JObj [(''secrets'', JArr [JStr ''list''])])]])]),
          2,
          [(''/subscriptions/S/resourceGroups/G'', Contains,
            ''/subscriptions/S/resourceGroups/G/providers/Microsoft.KeyVault/vaults/v'', None),
           (''p1'', HasAccessPolicies,
            ''/subscriptions/S/resourceGroups/G/providers/Microsoft.KeyVault/vaults/v'',
            Some [(''keys'', JArr [JStr ''get''])]),
           (''p2'', HasAccessPolicies,
            ''/subscriptions/S/resourceGroups/G/providers/Microsoft.KeyVault/vaults/v'',
            Some [(''secrets'', JArr [JStr ''list''])])])"
proof -
  let ?ps = "[JObj [(''objectId'', JStr ''p1''),
                    (''permissions'', JObj [(''keys'', JArr [JStr ''get''])])],
              JObj [(''objectId'', JStr ''p2''),
                    (''permissions'', JObj [(''secrets'', JArr [JStr ''list''])])]]"
  let ?p = "JObj [(''accessPolicies'', JArr ?ps)]"
  let ?d = "\<lparr> raw_arm_id = JStr ''/subscriptions/S/resourceGroups/G/providers/Microsoft.KeyVault/vaults/v'',
          raw_location = JNull, raw_name = JNull, raw_properties = ?p,
          raw_tags = JNull, raw_arm_extras_valid = True \<rparr>"
  have ev: "map_sum id
     (\<lambda>inst. (arm_properties inst,
              map (\<lambda>r. (source r, relation r, target r, properties r))
                (rels_of (arm_relationships inst))))
     (ARMResource_init KeyVault ?d)
   = Inr (Some ?p,
          [(''/subscriptions/S/resourceGroups/G'', Contains,
            ''/subscriptions/S/resourceGroups/G/providers/Microsoft.KeyVault/vaults/v'', None),
           (''p1'', HasAccessPolicies,
            ''/subscriptions/S/resourceGroups/G/providers/Microsoft.KeyVault/vaults/v'',
            Some [(''keys'', JArr [JStr ''get''])]),
           (''p2'', HasAccessPolicies,
            ''/subscriptions/S/resourceGroups/G/providers/Microsoft.KeyVault/vaults/v'',
            Some [(''secrets'', JArr [JStr ''list''])])])"
    by (simp add: ARMResource_init_def validated_self_def init_xdict_def instance_xfields_def private_xfields_default_def instance_xfields_in_dict_def KeyVault_def bindE_def
        Relationship_init_def default_relationships_def resourcegroup_def py_index_def
        opt_str_def ResourceGroup_labels_def arm_class_labels_def labels_of_def
        optional_str_validator_def tags_validator_def convert_to_list_def
        KeyVault_relationships_def policy_relationship_def AADObject_labels_def Let_def)
  show ?thesis
  proof (cases "ARMResource_init KeyVault ?d")
    case (Inl e)
    with ev show ?thesis by simp
  next
    case (Inr inst)
    with ev have h2: "arm_properties inst = Some ?p" by simp
    have h3: "py_getattr ?p ''accessPolicies'' = Inr (JArr ?ps)" by simp
    from C9_keyvault_policy_edges [OF Inr h2 h3]
    have "length (filter (\<lambda>r. relation r = HasAccessPolicies)
                    (rels_of (arm_relationships inst))) = length ?ps"
      by (elim exE conjE) assumption
    with ev Inr show ?thesis by simp
  qed
qed

section \<open>Extraction fields\<close>

text \<open>
  What the loop over \<^verbatim>\<open>__xfields__\<close> does when it runs over a list of paths: it assigns to
  \<^verbatim>\<open>__xdict__\<close> in order, so an entry holds the value of the last path with its final
  segment; with pairwise different final segments it holds the value of its own path.
\<close>

lemma fold_xfields_other:
  "k \<notin> field_name ` set fs \<Longrightarrow>
     fold (\<lambda>field xd. xd(field_name field \<mapsto> xfield_value p field)) fs m k = m k"
  by (induction fs arbitrary: m) auto

lemma fold_xfields_distinct:
  "f \<in> set fs \<Longrightarrow> distinct (map field_name fs) \<Longrightarrow>
     fold (\<lambda>field xd. xd(field_name field \<mapsto> xfield_value p field)) fs m (field_name f)
       = Some (xfield_value p f)"
proof (induction fs arbitrary: m)
  case Nil
  then show ?case by simp
next
  case (Cons x fs)
  show ?case
  proof (cases "f = x")
    case True
    from Cons.prems(2) have "field_name x \<notin> field_name ` set fs" by simp
    from fold_xfields_other [OF this]
    have "fold (\<lambda>field xd. xd(field_name field \<mapsto> xfield_value p field)) fs
            (m(field_name x \<mapsto> xfield_value p x)) (field_name x)
          = (m(field_name x \<mapsto> xfield_value p x)) (field_name x)" .
    with True show ?thesis by (simp only: fold_simps fun_upd_same)
  next
    case False
    with Cons.prems have "f \<in> set fs" "distinct (map field_name fs)" by simp_all
    from Cons.IH [OF this] show ?thesis by (simp only: fold_simps)
  qed
qed

lemma extract_xfields_distinct:
  "f \<in> set fs \<Longrightarrow> distinct (map field_name fs) \<Longrightarrow>
     extract_xfields fs p (field_name f) = Some (xfield_value p f)"
  unfolding extract_xfields_def by (rule fold_xfields_distinct)

text \<open>
  The instance's \<^verbatim>\<open>__xfields__\<close> is the empty list for every class, so the guard of the
  extraction step is false for every record: \<^verbatim>\<open>__xdict__\<close> of a constructed instance is
  empty, whatever the class assigns to \<^verbatim>\<open>__xfields__\<close> and whatever the properties hold.
\<close>

lemma ARMResource_init_xdict:
  assumes "ARMResource_init c d = Inr inst"
  shows "self_xfields inst = [] \<and> xdict inst = Map.empty"
proof -
  from ARMResource_init_InrD [OF assms] obtain i loc nm props tgs r1 r2 where
    "inst = (validated_self c i loc nm props tgs) \<lparr> arm_relationships := r1 @ r2 \<rparr>"
    by blast
  then show ?thesis
    by (simp add: validated_self_def init_xdict_def instance_xfields_def
        private_xfields_default_def split: option.splits)
qed

lemma ARMResource_node_without_xdict:
  assumes "ARMResource_init c d = Inr inst" and "k \<noteq> ''_relationships''"
  shows "ARMResource_node inst k = ARMResource_dict inst k"
  using ARMResource_init_xdict [OF assms(1)] assms(2)
  by (simp add: ARMResource_node_def map_add_def)

text \<open>
  Claim C8: for an ARM resource class that declares extraction fields, construction looks
  every declared dotted path up in the properties tree, stores null under the path's final
  segment when the path is absent, and merges the value found into the node export under
  that key when it is present. The constructor has the loop that does this, but its guard
  reads \<^verbatim>\<open>self.__xfields__\<close>, which is the instance's private attribute, the empty list,
  and not the list of the class: the loop never runs. A storage account whose properties
  hold \<^verbatim>\<open>accessTier\<close> and no \<^verbatim>\<open>creationTime\<close> is constructed with an export that has
  neither entry, and that carries the entry \<^verbatim>\<open>__xfields__\<close> with the empty list instead.
\<close>

theorem C8_extraction_never_runs:
  "map_sum id
     (\<lambda>inst. (arm_properties inst,
              ARMResource_node inst ''accessTier'',
              ARMResource_node inst ''creationTime'',
              ARMResource_node inst ''__xfields__''))
     (ARMResource_init StorageAccount
        \<lparr> raw_arm_id = JStr ''/subscriptions/S/resourceGroups/G/providers/Microsoft.Storage/storageAccounts/acct'',
          raw_location = JNull, raw_name = JNull,
          raw_properties = JObj [(''accessTier'', JStr ''Hot'')],
          raw_tags = JNull, raw_arm_extras_valid = True \<rparr>)
   = Inr (Some (JObj [(''accessTier'', JStr ''Hot'')]), None, None, Some (Val (JArr [])))"
  by (simp add: ARMResource_init_def validated_self_def init_xdict_def instance_xfields_def
      private_xfields_default_def instance_xfields_in_dict_def StorageAccount_def
      bindE_def Relationship_init_def default_relationships_def resourcegroup_def py_index_def
      opt_str_def ResourceGroup_labels_def arm_class_labels_def labels_of_def
      optional_str_validator_def tags_validator_def convert_to_list_def default_arm_hook_def
      Node_relationships_def ARMResource_node_def ARMResource_dict_def map_add_def Let_def)

section \<open>What the constructors do in general\<close>

text \<open>
  The facts of this section hold for every input. They show that the behaviour evaluated
  above on single records is the behaviour of the constructors on all records.
\<close>

subsection \<open>The accessors\<close>

text \<open>
  A split is never empty, so \<^verbatim>\<open>resourcegroup\<close> never raises; and both accessors return
  \<^verbatim>\<open>None\<close> for an id in which the guarded text does not occur.
\<close>

lemma py_split_nonempty: "py_split sep s \<noteq> []"
  by (induction sep s rule: py_split.induct) (auto split: list.splits)

lemma resourcegroup_total: "\<exists>r. resourcegroup i = Inr r"
  using py_split_nonempty [of "''/providers''" i]
  by (simp add: resourcegroup_def py_index_def bindE_def del: py_split.simps)

lemma subscription_without_substring:
  "\<not> str_contains ''subscriptions'' i \<Longrightarrow> subscription i = Inr None"
  by (simp add: subscription_def)

lemma resourcegroup_without_substring:
  "\<not> str_contains ''providers'' i \<Longrightarrow> resourcegroup i = Inr None"
  by (simp add: resourcegroup_def)

subsection \<open>The default relationship\<close>

text \<open>
  No instance of a class that maps to its resource group is ever constructed from an id in
  which \<^verbatim>\<open>providers\<close> does not occur: the \<^verbatim>\<open>Contains\<close> relationship is always
  attempted, and a \<^verbatim>\<open>None\<close> source is refused.
\<close>

lemma no_providers_never_constructed:
  assumes "map_to_resourcegroup c"
    and "str_validator (raw_arm_id d) = Inr i"
    and "\<not> str_contains ''providers'' i"
  shows "\<exists>e. ARMResource_init c d = Inl e"
proof (cases "ARMResource_init c d")
  case (Inl e)
  then show ?thesis by blast
next
  case (Inr inst)
  from ARMResource_init_InrD [OF Inr] assms(2) obtain loc nm props tgs r1 where
    "default_relationships c (validated_self c i loc nm props tgs) = Inr r1"
    by auto
  from default_relationships_mapped [OF this assms(1)]
  obtain rg where "resourcegroup (arm_id (validated_self c i loc nm props tgs)) = Inr (Some rg)"
    by blast
  with assms(3) show ?thesis
    by (simp add: validated_self_def resourcegroup_def)
qed

text \<open>
  The relationships of a constructed instance are the default relationships followed by what
  the hook yielded, whatever the hook is.
\<close>

lemma hook_output_follows_defaults:
  assumes "ARMResource_init c d = Inr inst"
  shows "\<exists>self defaults hooked.
           default_relationships c self = Inr defaults
         \<and> arm_hook c (self \<lparr> arm_relationships := defaults \<rparr>) = Inr hooked
         \<and> arm_relationships inst = defaults @ hooked"
proof -
  from ARMResource_init_InrD [OF assms] obtain i loc nm props tgs r1 r2 where
    "default_relationships c (validated_self c i loc nm props tgs) = Inr r1"
    "arm_hook c ((validated_self c i loc nm props tgs) \<lparr> arm_relationships := r1 \<rparr>) = Inr r2"
    "inst = (validated_self c i loc nm props tgs) \<lparr> arm_relationships := r1 @ r2 \<rparr>"
    by blast
  then show ?thesis by (intro exI [of _ "validated_self c i loc nm props tgs"] exI [of _ r1] exI [of _ r2]) simp
qed

subsection \<open>Owners and members\<close>

text \<open>
  Every \<^verbatim>\<open>Owns\<close> relationship leads from the object to one of its owners, every
  \<^verbatim>\<open>MemberOf\<close> relationship from a member to the object.
\<close>

lemma owner_relationship_InrD:
  assumes "owner_relationship self owner = Inr item"
  shows "\<exists>r. item = Rel r \<and> source r = aad_id self \<and> target r = owner \<and> relation r = Owns"
  using assms
  by (auto simp: owner_relationship_def Relationship_init_def bindE_Inr_iff split: option.splits)

lemma member_relationship_InrD:
  assumes "member_relationship self member = Inr item"
  shows "\<exists>r. item = Rel r \<and> source r = member \<and> target r = aad_id self \<and> relation r = MemberOf"
  using assms
  by (auto simp: member_relationship_def Relationship_init_def bindE_Inr_iff split: option.splits)

lemma AADObject_init_InrD:
  assumes "AADObject_init c d = Inr inst"
  shows "\<exists>self r1 r2 r3.
           aad_id self = aad_id inst \<and> owners self = owners inst \<and> members self = members inst
         \<and> mapE (owner_relationship self) (getattr_default (owners self)) = Inr r1
         \<and> mapE (member_relationship self) (getattr_default (members self)) = Inr r2
         \<and> aad_hook c (self \<lparr> aad_relationships := r1 @ r2 \<rparr>) = Inr r3
         \<and> aad_relationships inst = r1 @ r2 @ r3"
proof -
  from assms obtain i dn ow mem r1 r2 r3 where
    r1: "mapE (owner_relationship \<lparr> aad_id = i, displayName = dn, owners = ow, members = mem,
                 aad_labels = aad_class_labels c, aad_relationships = [] \<rparr>)
           (getattr_default ow) = Inr r1" and
    r2: "mapE (member_relationship \<lparr> aad_id = i, displayName = dn, owners = ow, members = mem,
                 aad_labels = aad_class_labels c, aad_relationships = [] \<rparr>)
           (getattr_default mem) = Inr r2" and
    r3: "aad_hook c \<lparr> aad_id = i, displayName = dn, owners = ow, members = mem,
                 aad_labels = aad_class_labels c, aad_relationships = r1 @ r2 \<rparr> = Inr r3" and
    inst: "inst = \<lparr> aad_id = i, displayName = dn, owners = ow, members = mem,
                 aad_labels = aad_class_labels c, aad_relationships = r1 @ r2 @ r3 \<rparr>"
    by (auto simp: AADObject_init_def Let_def bindE_Inr_iff split: if_splits)
  show ?thesis
    by (rule exI [of _ "\<lparr> aad_id = i, displayName = dn, owners = ow, members = mem,
                 aad_labels = aad_class_labels c, aad_relationships = [] \<rparr>"],
        rule exI [of _ r1], rule exI [of _ r2], rule exI [of _ r3])
       (use r1 r2 r3 inst in simp)
qed

lemma owns_edges_start_at_self:
  assumes "AADObject_init c d = Inr inst" and "owners inst = Some os"
  shows "\<forall>k<length os. \<exists>r. aad_relationships inst ! k = Rel r
           \<and> source r = aad_id inst \<and> target r = os ! k \<and> relation r = Owns"
proof (intro allI impI)
  fix k assume k: "k < length os"
  from AADObject_init_InrD [OF assms(1)] assms(2) obtain self r1 r2 r3 where
    i: "aad_id self = aad_id inst" and
    m: "mapE (owner_relationship self) os = Inr r1" and
    r: "aad_relationships inst = r1 @ r2 @ r3"
    by (auto simp: getattr_default_def)
  from mapE_InrD [OF m] k have "length r1 = length os"
    and "owner_relationship self (os ! k) = Inr (r1 ! k)" by simp_all
  with owner_relationship_InrD [of self "os ! k" "r1 ! k"] i r k
  show "\<exists>r. aad_relationships inst ! k = Rel r
           \<and> source r = aad_id inst \<and> target r = os ! k \<and> relation r = Owns"
    by (auto simp: nth_append)
qed

subsection \<open>Ids that follow the ARM path grammar\<close>

text \<open>
  Splitting at \<^verbatim>\<open>"/"\<close> and at \<^verbatim>\<open>"/providers"\<close>, over a prefix in which the separator
  does not start.
\<close>

lemma py_split_slash_segment:
  "CHR ''/'' \<notin> set x \<Longrightarrow> py_split ''/'' (x @ CHR ''/'' # z) = x # py_split ''/'' z"
  by (induction x) auto

lemma hd_py_split_no_match:
  "sep \<noteq> [] \<Longrightarrow> \<not> startswith sep (c # cs) \<Longrightarrow>
     hd (py_split sep (c # cs)) = c # hd (py_split sep cs)"
  using py_split_nonempty [of sep cs] by (cases "py_split sep cs") simp_all

lemma hd_py_split_slash_free:
  "CHR ''/'' \<notin> set x \<Longrightarrow>
     hd (py_split (CHR ''/'' # w) (x @ z)) = x @ hd (py_split (CHR ''/'' # w) z)"
proof (induction x)
  case Nil
  then show ?case by simp
next
  case (Cons a x)
  then have "\<not> startswith (CHR ''/'' # w) (a # x @ z)" by auto
  from hd_py_split_no_match [OF _ this] Cons show ?case by simp
qed

lemma startswith_slash_free:
  "CHR ''/'' \<notin> set p \<Longrightarrow> startswith p (x @ CHR ''/'' # y) = startswith p x"
  by (induction p x rule: startswith.induct) auto

lemma startswith_append_self: "startswith sub (sub @ z)"
  by (induction sub) simp_all

lemma str_contains_append: "str_contains sub (x @ sub @ z)"
proof (induction x)
  case Nil
  show ?case
  proof (cases "sub @ z")
    case Nil
    then show ?thesis by simp
  next
    case (Cons c cs)
    with startswith_append_self [of sub z] show ?thesis by simp
  qed
next
  case (Cons a x)
  then show ?case by simp
qed

lemma py_index_0: "xs \<noteq> [] \<Longrightarrow> py_index xs 0 = Inr (hd xs)"
  by (cases xs) (simp_all add: py_index_def)

text \<open>
  For an id \<^verbatim>\<open>/subscriptions/S/resourceGroups/G/providers/...\<close> in which \<open>S\<close> and \<open>G\<close>
  are path segments (no \<^verbatim>\<open>/\<close> in them), \<^verbatim>\<open>subscription\<close> is \<open>S\<close>; when moreover
  neither \<open>S\<close> nor \<open>G\<close> begins with \<^verbatim>\<open>providers\<close>, \<^verbatim>\<open>resourcegroup\<close> is
  \<^verbatim>\<open>/subscriptions/S/resourceGroups/G\<close>, and the relationship list of a constructed
  instance of a class that maps to its resource group starts with the \<^verbatim>\<open>Contains\<close>
  relationship from there to the full id, followed by what the hook yielded.
\<close>

lemma subscription_of_arm_id:
  assumes "CHR ''/'' \<notin> set S"
  shows "subscription (''/subscriptions/'' @ S @ ''/resourceGroups/'' @ G @ ''/providers/'' @ rest)
         = Inr (Some S)"
proof -
  let ?i = "''/subscriptions/'' @ S @ ''/resourceGroups/'' @ G @ ''/providers/'' @ rest"
  let ?z3 = "''resourceGroups/'' @ G @ ''/providers/'' @ rest"
  let ?z2 = "S @ CHR ''/'' # ?z3"
  let ?z1 = "''subscriptions'' @ CHR ''/'' # ?z2"
  have c: "str_contains ''subscriptions'' (''/'' @ ''subscriptions'' @ CHR ''/'' # ?z2)"
    by (rule str_contains_append)
  have e: "?i = [] @ CHR ''/'' # ?z1" by simp
  have e': "?i = ''/'' @ ''subscriptions'' @ CHR ''/'' # ?z2" by simp
  have s1: "py_split ''/'' ([] @ CHR ''/'' # ?z1) = [] # py_split ''/'' ?z1"
    by (rule py_split_slash_segment) simp
  have s2: "py_split ''/'' ?z1 = ''subscriptions'' # py_split ''/'' ?z2"
    by (rule py_split_slash_segment) simp
  have s3: "py_split ''/'' ?z2 = S # py_split ''/'' ?z3"
    by (rule py_split_slash_segment) (rule assms)
  have sp: "py_split ''/'' ?i = [] # ''subscriptions'' # S # py_split ''/'' ?z3"
    unfolding e unfolding s1 s2 s3 ..
  have c': "str_contains ''subscriptions'' ?i"
    unfolding e' by (rule c)
  show ?thesis
    unfolding subscription_def sp using c' by (simp add: py_index_def bindE_def)
qed

lemma resourcegroup_of_arm_id:
  assumes "CHR ''/'' \<notin> set S" and "CHR ''/'' \<notin> set G"
    and "\<not> startswith ''providers'' S" and "\<not> startswith ''providers'' G"
  shows "resourcegroup (''/subscriptions/'' @ S @ ''/resourceGroups/'' @ G @ ''/providers/'' @ rest)
         = Inr (Some (''/subscriptions/'' @ S @ ''/resourceGroups/'' @ G))"
proof -
  let ?sep = "''/providers''"
  let ?i = "''/subscriptions/'' @ S @ ''/resourceGroups/'' @ G @ ''/providers/'' @ rest"
  let ?y4 = "CHR ''/'' # (''providers'' @ CHR ''/'' # rest)"
  let ?y3 = "CHR ''/'' # (G @ ?y4)"
  let ?y2 = "CHR ''/'' # (''resourceGroups'' @ ?y3)"
  let ?y1 = "CHR ''/'' # (S @ ?y2)"
  have e: "?i = CHR ''/'' # (''subscriptions'' @ ?y1)" by simp
  have n1: "\<not> startswith ?sep (CHR ''/'' # (''subscriptions'' @ ?y1))" by simp
  have n3: "\<not> startswith ?sep (CHR ''/'' # (S @ ?y2))"
    using assms(3) startswith_slash_free [of "''providers''" S "''resourceGroups'' @ ?y3"]
    by simp
  have n5: "\<not> startswith ?sep (CHR ''/'' # (''resourceGroups'' @ ?y3))" by simp
  have n7: "\<not> startswith ?sep (CHR ''/'' # (G @ ?y4))"
    using assms(4) startswith_slash_free [of "''providers''" G "''providers'' @ CHR ''/'' # rest"]
    by simp
  have h1: "hd (py_split ?sep (CHR ''/'' # (''subscriptions'' @ ?y1)))
            = CHR ''/'' # hd (py_split ?sep (''subscriptions'' @ ?y1))"
    by (rule hd_py_split_no_match [OF _ n1]) simp
  have h2: "hd (py_split ?sep (''subscriptions'' @ ?y1))
            = ''subscriptions'' @ hd (py_split ?sep ?y1)"
    by (rule hd_py_split_slash_free) simp
  have h3: "hd (py_split ?sep ?y1) = CHR ''/'' # hd (py_split ?sep (S @ ?y2))"
    by (rule hd_py_split_no_match [OF _ n3]) simp
  have h4: "hd (py_split ?sep (S @ ?y2)) = S @ hd (py_split ?sep ?y2)"
    by (rule hd_py_split_slash_free) (rule assms(1))
  have h5: "hd (py_split ?sep ?y2) = CHR ''/'' # hd (py_split ?sep (''resourceGroups'' @ ?y3))"
    by (rule hd_py_split_no_match [OF _ n5]) simp
  have h6: "hd (py_split ?sep (''resourceGroups'' @ ?y3))
            = ''resourceGroups'' @ hd (py_split ?sep ?y3)"
    by (rule hd_py_split_slash_free) simp
  have h7: "hd (py_split ?sep ?y3) = CHR ''/'' # hd (py_split ?sep (G @ ?y4))"
    by (rule hd_py_split_no_match [OF _ n7]) simp
  have h8: "hd (py_split ?sep (G @ ?y4)) = G @ hd (py_split ?sep ?y4)"
    by (rule hd_py_split_slash_free) (rule assms(2))
  have h9: "hd (py_split ?sep ?y4) = []"
    by simp
  have "hd (py_split ?sep ?i)
        = CHR ''/'' # (''subscriptions'' @ CHR ''/'' # (S @ CHR ''/'' # (''resourceGroups'' @
            CHR ''/'' # (G @ []))))"
    unfolding e unfolding h1 h2 h3 h4 h5 h6 h7 h8 h9 ..
  also have "\<dots> = ''/subscriptions/'' @ S @ ''/resourceGroups/'' @ G" by simp
  finally have hd: "hd (py_split ?sep ?i) = ''/subscriptions/'' @ S @ ''/resourceGroups/'' @ G" .
  have c: "str_contains ''providers''
             ((''/subscriptions/'' @ S @ ''/resourceGroups/'' @ G @ ''/'') @ ''providers''
                @ (''/'' @ rest))"
    by (rule str_contains_append)
  have e': "?i = (''/subscriptions/'' @ S @ ''/resourceGroups/'' @ G @ ''/'') @ ''providers''
                @ (''/'' @ rest)" by simp
  have c': "str_contains ''providers'' ?i"
    unfolding e' by (rule c)
  have "py_index (py_split ?sep ?i) 0 = Inr (hd (py_split ?sep ?i))"
    by (rule py_index_0) (rule py_split_nonempty)
  with hd have "py_index (py_split ?sep ?i) 0
                = Inr (''/subscriptions/'' @ S @ ''/resourceGroups/'' @ G)"
    by (simp only:)
  with c' show ?thesis
    unfolding resourcegroup_def by (simp only: if_True bindE_def sum.case)
qed

lemma contains_edge_of_arm_id:
  assumes "ARMResource_init c d = Inr inst"
    and "map_to_resourcegroup c"
    and "raw_arm_id d
         = JStr (''/subscriptions/'' @ S @ ''/resourceGroups/'' @ G @ ''/providers/'' @ rest)"
    and "CHR ''/'' \<notin> set S" and "CHR ''/'' \<notin> set G"
    and "\<not> startswith ''providers'' S" and "\<not> startswith ''providers'' G"
  shows "\<exists>r hooked.
           arm_relationships inst = Rel r # hooked
         \<and> arm_hook c (inst \<lparr> arm_relationships := [Rel r] \<rparr>) = Inr hooked
         \<and> relation r = Contains
         \<and> source r = ''/subscriptions/'' @ S @ ''/resourceGroups/'' @ G
         \<and> target r
             = ''/subscriptions/'' @ S @ ''/resourceGroups/'' @ G @ ''/providers/'' @ rest"
proof -
  let ?i = "''/subscriptions/'' @ S @ ''/resourceGroups/'' @ G @ ''/providers/'' @ rest"
  from ARMResource_init_InrD [OF assms(1)] assms(3) obtain loc nm props tgs r1 r2 where
    dflt: "default_relationships c (validated_self c ?i loc nm props tgs) = Inr r1"
    and hook: "arm_hook c ((validated_self c ?i loc nm props tgs) \<lparr> arm_relationships := r1 \<rparr>)
               = Inr r2"
    and inst: "inst = (validated_self c ?i loc nm props tgs) \<lparr> arm_relationships := r1 @ r2 \<rparr>"
    by auto
  have id_self: "arm_id (validated_self c ?i loc nm props tgs) = ?i"
    by (simp add: validated_self_def)
  from default_relationships_mapped [OF dflt assms(2)] obtain r rg where
    r1: "r1 = [Rel r]" and rel: "relation r = Contains"
    and rg: "resourcegroup (arm_id (validated_self c ?i loc nm props tgs)) = Inr (Some rg)"
    and src: "source r = rg" and tgt: "target r = arm_id (validated_self c ?i loc nm props tgs)"
    by blast
  from rg have "resourcegroup ?i = Inr (Some rg)" unfolding id_self .
  with resourcegroup_of_arm_id [OF assms(4-7), of rest]
  have rg_eq: "rg = ''/subscriptions/'' @ S @ ''/resourceGroups/'' @ G" by simp
  have same: "inst \<lparr> arm_relationships := [Rel r] \<rparr>
              = (validated_self c ?i loc nm props tgs) \<lparr> arm_relationships := r1 \<rparr>"
    unfolding inst r1 by simp
  have rels: "arm_relationships inst = Rel r # r2"
    unfolding inst r1 by simp
  from tgt have tgt': "target r = ?i" unfolding id_self .
  from src rg_eq have src': "source r = ''/subscriptions/'' @ S @ ''/resourceGroups/'' @ G"
    by (simp only:)
  from hook have hook': "arm_hook c (inst \<lparr> arm_relationships := [Rel r] \<rparr>) = Inr r2"
    unfolding same .
  from rels hook' rel src' tgt' show ?thesis by blast
qed

end
